theory Spec2Isabelle
  imports Main "HOL-Library.Word"
begin

unbundle bit_operations_syntax

section \<open>Data model of the value engine (values.py)\<close>

text \<open>
  BASIC strings are byte sequences; text produced by the formatters is a Python str,
  modelled as \<open>string\<close>.
\<close>

type_synonym byte = "8 word"

text \<open>
  Errors of the source as values. \<open>RunError\<close> is \<open>error.RunError\<close> with its BASIC error
  code; the other constructors are the Python exceptions the source can raise by
  indexing a dictionary or an empty string, or by calling a method of a number on a
  string value (a tuple).
\<close>

datatype errcode = TYPE_MISMATCH | IFC | OVERFLOW | STX

datatype error = RunError errcode | KeyError | IndexError | AttributeError

text \<open>
  The two float classes of \<open>numbers\<close>: a Single is a 4-byte and a Double an 8-byte
  Microsoft Binary Format buffer. The buffer is read as a little-endian word, so the
  last byte (the exponent) is the top byte of the word and the sign bit is the top bit
  of the byte below it.
\<close>

datatype mbf = Single "32 word" | Double "64 word"

text \<open>
  A BASIC value: an \<open>Integer\<close> (2-byte buffer), a float, or a string, which the source
  holds as the pair of the sigil and the 3-byte descriptor (length, address).
\<close>

datatype "value" = Integer "16 word" | Float mbf | String "byte list"

fun sigil :: "value \<Rightarrow> char" where
  "sigil (Integer _) = CHR ''%''"
| "sigil (Float (Single _)) = CHR ''!''"
| "sigil (Float (Double _)) = CHR ''#''"
| "sigil (String _) = CHR ''$''"

subsection \<open>Attributes of the float classes\<close>

text \<open>
  Modelled from the spec: the module \<open>numbers\<close> is not among the sources. The class
  attributes \<open>digits\<close>, \<open>exp_sign\<close> and \<open>sigil\<close> follow sections 3, 4.1 and 4.7: 7
  digits, \<open>E\<close> and \<open>!\<close> for Single; 16 digits, \<open>D\<close> and \<open>#\<close> for Double.
\<close>

fun digits :: "mbf \<Rightarrow> int" where
  "digits (Single _) = 7"
| "digits (Double _) = 16"

fun exp_sign :: "mbf \<Rightarrow> string" where
  "exp_sign (Single _) = ''E''"
| "exp_sign (Double _) = ''D''"

fun float_sigil :: "mbf \<Rightarrow> string" where
  "float_sigil (Single _) = ''!''"
| "float_sigil (Double _) = ''#''"

text \<open>
  Modelled from the spec: \<open>is_zero\<close>, \<open>is_negative\<close>, \<open>iabs\<close> and \<open>ineg\<close> of the float
  classes (module \<open>numbers\<close>, absent). Section 3: a value is zero when its exponent byte
  is 0; the sign is one bit, the top bit of the byte below the exponent. Section 4.2:
  \<open>ineg\<close> and \<open>iabs\<close> flip or clear the sign bit; zero remains zero.
\<close>

fun is_zero :: "mbf \<Rightarrow> bool" where
  "is_zero (Single w) = (drop_bit 24 w = 0)"
| "is_zero (Double w) = (drop_bit 56 w = 0)"

fun is_negative :: "mbf \<Rightarrow> bool" where
  "is_negative (Single w) = bit w 23"
| "is_negative (Double w) = bit w 55"

fun iabs :: "mbf \<Rightarrow> mbf" where
  "iabs (Single w) = Single (unset_bit 23 w)"
| "iabs (Double w) = Double (unset_bit 55 w)"

fun ineg :: "mbf \<Rightarrow> mbf" where
  "ineg (Single w) = (if drop_bit 24 w = 0 then Single w else Single (flip_bit 23 w))"
| "ineg (Double w) = (if drop_bit 56 w = 0 then Double w else Double (flip_bit 55 w))"

text \<open>
  The decimal form \<open>to_decimal(digits)\<close> of a float is computed in \<open>numbers\<close> too. The
  formatters below take it as the parameter \<open>to_decimal\<close>: the float and the number of
  digits give the pair (mantissa, exp10). A call without argument uses the native digit
  count of the class (section 4.1).
\<close>

type_synonym decimal_form = "mbf \<Rightarrow> int \<Rightarrow> int \<times> int"

section \<open>Python strings\<close>

text \<open>\<open>str(n)\<close> of a non-negative Python integer.\<close>

definition digit_char :: "nat \<Rightarrow> char" where
  "digit_char d = ''0123456789'' ! d"

fun str_nat :: "nat \<Rightarrow> string" where
  "str_nat n = (if n < 10 then [digit_char n] else str_nat (n div 10) @ [digit_char (n mod 10)])"

declare str_nat.simps [simp del]

text \<open>The slices \<open>s[:k]\<close> and \<open>s[k:]\<close>: a negative index counts from the end.\<close>

definition py_take :: "int \<Rightarrow> 'a list \<Rightarrow> 'a list" where
  "py_take k s = (if k < 0 then take (nat (int (length s) + k)) s else take (nat k) s)"

definition py_drop :: "int \<Rightarrow> 'a list \<Rightarrow> 'a list" where
  "py_drop k s = (if k < 0 then drop (nat (int (length s) + k)) s else drop (nat k) s)"

text \<open>\<open>c * k\<close> for a one-character string: empty when \<open>k\<close> is not positive.\<close>

definition py_rep :: "char \<Rightarrow> int \<Rightarrow> string" where
  "py_rep c k = replicate (nat k) c"

text \<open>\<open>s.rstrip('0')\<close>.\<close>

definition rstrip0 :: "string \<Rightarrow> string" where
  "rstrip0 s = rev (dropWhile (\<lambda>c. c = CHR ''0'') (rev s))"

section \<open>Number formatting\<close>

text \<open>
  The private helpers of the source start with an underscore, which an Isabelle name
  cannot: \<open>_get_digits\<close> is \<open>get_digits\<close> here, and so on.
\<close>

definition get_digits :: "int \<Rightarrow> int \<Rightarrow> bool \<Rightarrow> string" where
  "get_digits num ndigits remove_trailing =
    (let digitstr = str_nat (nat \<bar>num\<bar>);
         digitstr = py_rep CHR ''0'' (ndigits - int (length digitstr)) @ py_take ndigits digitstr
     in if remove_trailing then rstrip0 digitstr else digitstr)"

definition scientific_notation :: "string \<Rightarrow> int \<Rightarrow> string \<Rightarrow> int \<Rightarrow> bool \<Rightarrow> string" where
  "scientific_notation digitstr exp10 expsign digits_to_dot force_dot =
    (let valstr = py_take digits_to_dot digitstr;
         valstr = (if int (length digitstr) > digits_to_dot
                   then valstr @ ''.'' @ py_drop digits_to_dot digitstr
                   else if int (length digitstr) = digits_to_dot \<and> force_dot
                   then valstr @ ''.''
                   else valstr);
         exponent = exp10 - digits_to_dot + 1;
         valstr = valstr @ expsign;
         valstr = (if exponent < 0 then valstr @ ''-'' else valstr @ ''+'')
     in valstr @ get_digits \<bar>exponent\<bar> 2 False)"

definition decimal_notation :: "string \<Rightarrow> int \<Rightarrow> string \<Rightarrow> bool \<Rightarrow> string" where
  "decimal_notation digitstr exp10_in type_sign force_dot =
    (let exp10 = exp10_in + 1
     in if exp10 \<ge> int (length digitstr) then
          (let valstr = digitstr @ py_rep CHR ''0'' (exp10 - int (length digitstr));
               valstr = (if force_dot then valstr @ ''.'' else valstr)
           in if \<not> force_dot \<or> type_sign = ''#'' then valstr @ type_sign else valstr)
        else if exp10 > 0 then
          (let valstr = py_take exp10 digitstr @ ''.'' @ py_drop exp10 digitstr
           in if type_sign = ''#'' then valstr @ type_sign else valstr)
        else
          (let valstr = (if force_dot then ''0'' else '''');
               valstr = valstr @ ''.'' @ py_rep CHR ''0'' (- exp10) @ digitstr
           in if type_sign = ''#'' then valstr @ type_sign else valstr))"

definition float_to_str :: "decimal_form \<Rightarrow> mbf \<Rightarrow> bool \<Rightarrow> bool \<Rightarrow> string" where
  "float_to_str to_decimal n_in leading_space type_sign =
    (if is_zero n_in then
       (if leading_space then '' '' else '''') @ ''0'' @ (if type_sign then float_sigil n_in else '''')
     else
       (let sign = (if is_negative n_in then ''-'' else if leading_space then '' '' else '''');
            (num, exp10) = to_decimal n_in (digits n_in);
            ndigits = digits n_in;
            digitstr = get_digits num ndigits True;
            exp10 = exp10 + ndigits - 1;
            valstr =
              (if exp10 > ndigits - 1 \<or> int (length digitstr) - exp10 > ndigits + 1
               then scientific_notation digitstr exp10 (exp_sign n_in) 1 False
               else decimal_notation digitstr exp10
                      (if \<not> type_sign then '''' else float_sigil n_in) False)
        in sign @ valstr))"

definition format_float_scientific :: "decimal_form \<Rightarrow> mbf \<Rightarrow> int \<Rightarrow> int \<Rightarrow> bool \<Rightarrow> string" where
  "format_float_scientific to_decimal expr digits_before decimals force_dot =
    (let work_digits = min (digits expr) (digits_before + decimals)
     in if is_zero expr \<and> \<not> force_dot then
          (if exp_sign expr = ''E'' then ''E+00'' else ''0D+00'')
        else
          (let (digitstr, exp10) =
                 (if is_zero expr then (py_rep CHR ''0'' (digits_before + decimals), 0)
                  else
                    (let (num, exp10) = to_decimal expr (if work_digits = 0 then 1 else work_digits);
                         digitstr = get_digits num work_digits True;
                         digitstr =
                           (if int (length digitstr) < digits_before + decimals
                            then digitstr @ py_rep CHR ''0'' (digits_before + decimals - int (length digitstr))
                            else digitstr)
                     in (digitstr, exp10)));
               exp10 = (if work_digits = 0 then exp10 + 1 else exp10);
               exp10 = exp10 + digits_before + decimals - 1
           in scientific_notation digitstr exp10 (exp_sign expr) digits_before force_dot))"

definition format_float_fixed :: "decimal_form \<Rightarrow> mbf \<Rightarrow> int \<Rightarrow> bool \<Rightarrow> string" where
  "format_float_fixed to_decimal expr decimals force_dot =
    (let (num, exp10) = to_decimal expr (digits expr);
         (num, exp10) =
           (if - exp10 > decimals
            then to_decimal expr (digits expr - (- exp10 - decimals))
            else (num, exp10));
         digitstr = str_nat (nat \<bar>num\<bar>);
         nbefore = int (length digitstr) + exp10;
         digitstr = digitstr @ py_rep CHR ''0'' (decimals + exp10)
     in decimal_notation digitstr (nbefore - 1) '''' force_dot)"

text \<open>
  \<open>format_number\<close> (PRINT USING). The source notes that an Integer is converted to a
  float before the call, so the value is a float. \<open>tokens[0]\<close> on an empty token string is
  Python's IndexError.
\<close>

definition format_number :: "decimal_form \<Rightarrow> mbf \<Rightarrow> string \<Rightarrow> int \<Rightarrow> int \<Rightarrow> error + string" where
  "format_number to_decimal val tokens digits_before_in decimals =
    (if digits_before_in + decimals > 24 then Inl (RunError IFC)
     else
       (let has_dollar = (CHR ''$'' \<in> set tokens);
            force_dot = (CHR ''.'' \<in> set tokens);
            neg = is_negative val
        in if tokens = [] then Inl IndexError
           else
             (let (valstr, post_sign, digits_before) =
                    (if hd tokens = CHR ''+'' then
                       ((if neg then ''-'' else ''+''), '''', digits_before_in)
                     else if last tokens = CHR ''+'' then
                       ('''', (if neg then ''-'' else ''+''), digits_before_in)
                     else if last tokens = CHR ''-'' then
                       ('''', (if neg then ''-'' else '' ''), digits_before_in)
                     else
                       ((if neg then ''-'' else ''''), '''',
                        (if \<not> has_dollar
                         then (if digits_before_in - 1 < 0 then 0 else digits_before_in - 1)
                         else digits_before_in)));
                  val = iabs val;
                  valstr = valstr @ (if has_dollar then ''$'' else '''');
                  valstr = valstr @
                    (if CHR ''^'' \<in> set tokens
                     then format_float_scientific to_decimal val digits_before decimals force_dot
                     else format_float_fixed to_decimal val decimals force_dot);
                  valstr = valstr @ post_sign
              in Inr (if length valstr > length tokens then ''%'' @ valstr
                      else replicate (length tokens - length valstr)
                             (if CHR ''*'' \<in> set tokens then CHR ''*'' else CHR '' '') @ valstr))))"

section \<open>The class Values\<close>

text \<open>An exception raised in a subexpression ends the evaluation of the whole.\<close>

fun andthen :: "error + 'a \<Rightarrow> ('a \<Rightarrow> error + 'b) \<Rightarrow> error + 'b" where
  "andthen (Inl e) f = Inl e"
| "andthen (Inr x) f = f x"

subsection \<open>Collaborators\<close>

text \<open>
  The string space (\<open>self._strings\<close>) is an external collaborator. Its operation
  \<open>copy\<close>, which gives the bytes a string value denotes, is the parameter \<open>copy\<close> of
  the functions below.
\<close>

type_synonym string_space = "value \<Rightarrow> byte list"

text \<open>
  The operations of \<open>numbers\<close> whose result the spec does not fix bit for bit are
  parameters as well: narrowing a Double to a Single (\<open>Double.to_single\<close>), rounding a
  float to an Integer with its range check (\<open>to_integer(unsigned)\<close> of the float classes)
  and the methods \<open>gt\<close> and \<open>eq\<close> that compare two numbers of the same class.
\<close>

record numbers =
  double_to_single :: "64 word \<Rightarrow> 32 word"
  float_to_integer :: "mbf \<Rightarrow> bool \<Rightarrow> error + 16 word"
  number_gt :: "value \<Rightarrow> value \<Rightarrow> bool"
  number_eq :: "value \<Rightarrow> value \<Rightarrow> bool"

text \<open>
  The statements about concrete inputs further down need some instance of these
  parameters. Their inputs are Integers and strings, which never reach the float
  operations, so the choice does not matter there, and the general theorems next to
  them hold for every instance. The instance used: narrowing keeps the four high bytes
  of the Double, no float is accepted as an Integer, and numbers compare by their
  buffers.
\<close>

definition numbers_sample :: numbers where
  "numbers_sample =
    \<lparr>double_to_single = (\<lambda>d. ucast (drop_bit 32 d)),
     float_to_integer = (\<lambda>f is_unsigned. Inl (RunError OVERFLOW)),
     number_gt = (\<lambda>a b. False),
     number_eq = (\<lambda>a b. a = b)\<rparr>"

subsection \<open>Integers and byte representations\<close>

text \<open>
  Modelled from the spec: \<open>Integer.to_int\<close> and \<open>Integer.from_int\<close> (module \<open>numbers\<close>,
  absent). Section 4.3: an Integer is 16-bit two's complement and \<open>to_int(unsigned=true)\<close>
  reads the stored bits as 0 to 65535. Sections 3 and 7: a number outside the range of
  the destination (-32768 to 32767, or 0 to 65535 unsigned) is an Overflow.
\<close>

definition to_int :: "16 word \<Rightarrow> bool \<Rightarrow> int" where
  "to_int w is_unsigned = (if is_unsigned then uint w else sint w)"

definition from_int :: "int \<Rightarrow> bool \<Rightarrow> error + value" where
  "from_int n is_unsigned =
    (if is_unsigned then
       (if 0 \<le> n \<and> n \<le> 65535 then Inr (Integer (word_of_int n)) else Inl (RunError OVERFLOW))
     else
       (if - 32768 \<le> n \<and> n \<le> 32767 then Inr (Integer (word_of_int n)) else Inl (RunError OVERFLOW)))"

text \<open>
  Modelled from the spec: \<open>from_bytes\<close> of the number classes (module \<open>numbers\<close>, absent).
  Section 6: the buffers are little-endian.
\<close>

fun le_nat :: "byte list \<Rightarrow> nat" where
  "le_nat [] = 0"
| "le_nat (b # bs) = unat b + 256 * le_nat bs"

definition le_word :: "byte list \<Rightarrow> 'a::len word" where
  "le_word bs = word_of_nat (le_nat bs)"

text \<open>The dictionaries \<open>SIZE_TO_TYPE\<close> and \<open>SIZE_TO_CLASS\<close>; a missing key is a KeyError.\<close>

definition SIZE_TO_TYPE :: "nat \<rightharpoonup> char" where
  "SIZE_TO_TYPE = [2 \<mapsto> CHR ''%'', 3 \<mapsto> CHR ''$'', 4 \<mapsto> CHR ''!'', 8 \<mapsto> CHR ''#'']"

definition SIZE_TO_CLASS :: "nat \<rightharpoonup> (byte list \<Rightarrow> value)" where
  "SIZE_TO_CLASS = [2 \<mapsto> (\<lambda>bs. Integer (le_word bs)),
                    4 \<mapsto> (\<lambda>bs. Float (Single (le_word bs))),
                    8 \<mapsto> (\<lambda>bs. Float (Double (le_word bs)))]"

definition from_bytes :: "byte list \<Rightarrow> error + value" where
  "from_bytes token_bytes =
    (case SIZE_TO_TYPE (length token_bytes) of
       None \<Rightarrow> Inl KeyError
     | Some typechar \<Rightarrow>
         if typechar = CHR ''$'' then Inr (String token_bytes)
         else (case SIZE_TO_CLASS (length token_bytes) of
                 None \<Rightarrow> Inl KeyError
               | Some cls \<Rightarrow> Inr (cls token_bytes)))"

definition from_bool :: "bool \<Rightarrow> error + value" where
  "from_bool boo = (if boo then from_bytes [0xff, 0xff] else from_bytes [0, 0])"

text \<open>\<open>null('%')\<close>: an Integer with a zeroed buffer.\<close>

definition null_int :: "value" where
  "null_int = Integer 0"

subsection \<open>Type checks and conversions\<close>

definition pass_string :: "value \<Rightarrow> error + value" where
  "pass_string inp = (if sigil inp \<noteq> CHR ''$'' then Inl (RunError TYPE_MISMATCH) else Inr inp)"

definition pass_number :: "value \<Rightarrow> error + value" where
  "pass_number inp =
    (if sigil inp \<notin> {CHR ''%'', CHR ''!'', CHR ''#''} then Inl (RunError TYPE_MISMATCH) else Inr inp)"

text \<open>
  Modelled from the spec: the widening conversions \<open>Single.from_integer\<close>,
  \<open>Double.from_single\<close> and \<open>Double.from_integer\<close> (module \<open>numbers\<close>, absent). Section
  4.5: they preserve the value. Sections 3 and 6 give the layout: the exponent byte on
  top, the sign bit below it, then the mantissa without its leading 1. The scenario
  "Single 1.0 is the bytes 00 00 00 81" of section 8 fixes the bias: a number with
  \<open>k\<close> binary digits before the point has the exponent byte \<open>128 + k\<close>.
\<close>

fun bit_length :: "nat \<Rightarrow> nat" where
  "bit_length n = (if n = 0 then 0 else Suc (bit_length (n div 2)))"

declare bit_length.simps [simp del]

definition single_from_integer :: "16 word \<Rightarrow> 32 word" where
  "single_from_integer w =
    (let n = sint w; m = nat \<bar>n\<bar>; k = bit_length m
     in if n = 0 then 0
        else push_bit 24 (word_of_nat (128 + k))
             OR (if n < 0 then push_bit 23 1 else 0)
             OR take_bit 23 (word_of_nat (m * 2 ^ (24 - k))))"

definition double_from_single :: "32 word \<Rightarrow> 64 word" where
  "double_from_single w = push_bit 32 (ucast w)"

definition double_from_integer :: "16 word \<Rightarrow> 64 word" where
  "double_from_integer w = double_from_single (single_from_integer w)"

text \<open>
  \<open>to_integer\<close> as the source calls it on a value object (\<open>left.to_integer()\<close>): an
  Integer is its own Integer (modelled from the spec, section 4.5: the conversion
  rounds and checks the range, and an Integer is whole and in range), a float is
  converted by \<open>numbers\<close>, and a string value is a tuple, which has no such method.
\<close>

fun num_to_integer :: "numbers \<Rightarrow> value \<Rightarrow> bool \<Rightarrow> error + 16 word" where
  "num_to_integer nm (Integer w) is_unsigned = Inr w"
| "num_to_integer nm (Float f) is_unsigned = float_to_integer nm f is_unsigned"
| "num_to_integer nm (String d) is_unsigned = Inl AttributeError"

definition to_integer :: "numbers \<Rightarrow> value \<Rightarrow> bool \<Rightarrow> error + value" where
  "to_integer nm inp is_unsigned =
    (if sigil inp = CHR ''$'' then Inl (RunError TYPE_MISMATCH)
     else andthen (num_to_integer nm inp is_unsigned) (\<lambda>w. Inr (Integer w)))"

text \<open>
  \<open>to_single\<close>, \<open>to_double\<close> and \<open>to_float\<close> return an object of a float class. The
  branches are those of the source, selected by the sigil; a Single is its own Single.
\<close>

fun to_single :: "numbers \<Rightarrow> value \<Rightarrow> error + mbf" where
  "to_single nm (String d) = Inl (RunError TYPE_MISMATCH)"
| "to_single nm (Integer w) = Inr (Single (single_from_integer w))"
| "to_single nm (Float (Single s)) = Inr (Single s)"
| "to_single nm (Float (Double d)) = Inr (Single (double_to_single nm d))"

fun to_double :: "numbers \<Rightarrow> value \<Rightarrow> error + mbf" where
  "to_double nm (String d) = Inl (RunError TYPE_MISMATCH)"
| "to_double nm (Integer w) = Inr (Double (double_from_integer w))"
| "to_double nm (Float (Single s)) = Inr (Double (double_from_single s))"
| "to_double nm (Float (Double d)) = Inr (Double d)"

fun to_float :: "numbers \<Rightarrow> value \<Rightarrow> bool \<Rightarrow> error + mbf" where
  "to_float nm (Float (Double d)) allow_double =
     (if allow_double then Inr (Double d) else to_single nm (Float (Double d)))"
| "to_float nm num allow_double = to_single nm num"

definition to_most_precise :: "numbers \<Rightarrow> value \<Rightarrow> value \<Rightarrow> error + value \<times> value" where
  "to_most_precise nm left right =
    (let left_type = sigil left; right_type = sigil right
     in if left_type = CHR ''#'' \<or> right_type = CHR ''#'' then
          andthen (to_double nm left) (\<lambda>l. andthen (to_double nm right) (\<lambda>r. Inr (Float l, Float r)))
        else if left_type = CHR ''!'' \<or> right_type = CHR ''!'' then
          andthen (to_single nm left) (\<lambda>l. andthen (to_single nm right) (\<lambda>r. Inr (Float l, Float r)))
        else if left_type = CHR ''%'' \<or> right_type = CHR ''%'' then
          andthen (to_integer nm left False) (\<lambda>l. andthen (to_integer nm right False) (\<lambda>r. Inr (l, r)))
        else Inl (RunError TYPE_MISMATCH))"

subsection \<open>Numeric operators\<close>

definition abs_value :: "numbers \<Rightarrow> value \<Rightarrow> error + value" where
  "abs_value nm inp =
    (if sigil inp = CHR ''$'' then Inr inp
     else andthen (to_float nm inp True) (\<lambda>f. Inr (Float (iabs f))))"

definition negate :: "numbers \<Rightarrow> value \<Rightarrow> error + value" where
  "negate nm inp =
    (if sigil inp = CHR ''$'' then Inr inp
     else andthen (to_float nm inp True) (\<lambda>f. Inr (Float (ineg f))))"

definition bitwise_eqv :: "numbers \<Rightarrow> value \<Rightarrow> value \<Rightarrow> error + value" where
  "bitwise_eqv nm left right =
    andthen (num_to_integer nm left False) (\<lambda>l.
    andthen (num_to_integer nm right False) (\<lambda>r.
      from_int (0xffff - (to_int l True XOR to_int r True)) True))"

subsection \<open>Comparisons\<close>

text \<open>
  The loop of \<open>bool_gt\<close> over the indices below the length of the shorter string:
  \<open>Some\<close> is a \<open>return\<close> inside the loop, \<open>None\<close> is the loop running to its end.
\<close>

function gt_loop :: "byte list \<Rightarrow> byte list \<Rightarrow> nat \<Rightarrow> nat \<Rightarrow> bool option" where
  "gt_loop left right shortest i =
    (if i < shortest then
       (if left ! i > right ! i then Some True
        else if left ! i < right ! i then Some False
        else gt_loop left right shortest (Suc i))
     else None)"
  by pat_completeness auto
termination
  by (relation "measure (\<lambda>(left, right, shortest, i). shortest - i)") auto

declare gt_loop.simps [simp del]

definition string_gt :: "byte list \<Rightarrow> byte list \<Rightarrow> bool" where
  "string_gt left right =
    (case gt_loop left right (min (length left) (length right)) 0 of
       Some b \<Rightarrow> b
     | None \<Rightarrow> length left > length right)"

definition bool_eq :: "numbers \<Rightarrow> string_space \<Rightarrow> value \<Rightarrow> value \<Rightarrow> error + bool" where
  "bool_eq nm copy left right =
    (if sigil left = CHR ''$'' then
       andthen (pass_string left) (\<lambda>l. andthen (pass_string right) (\<lambda>r. Inr (copy l = copy r)))
     else
       andthen (to_most_precise nm left right) (\<lambda>(l, r). Inr (number_eq nm l r)))"

definition bool_gt :: "numbers \<Rightarrow> string_space \<Rightarrow> value \<Rightarrow> value \<Rightarrow> error + bool" where
  "bool_gt nm copy left right =
    (if sigil left = CHR ''$'' then
       andthen (pass_string left) (\<lambda>l. andthen (pass_string right) (\<lambda>r.
         Inr (string_gt (copy l) (copy r))))
     else
       andthen (to_most_precise nm left right) (\<lambda>(l, r). Inr (number_gt nm l r)))"

definition equals :: "numbers \<Rightarrow> string_space \<Rightarrow> value \<Rightarrow> value \<Rightarrow> error + value" where
  "equals nm copy left right = andthen (bool_eq nm copy left right) (\<lambda>b. from_bool b)"

definition not_equals :: "numbers \<Rightarrow> string_space \<Rightarrow> value \<Rightarrow> value \<Rightarrow> error + value" where
  "not_equals nm copy left right = andthen (bool_eq nm copy left right) (\<lambda>b. from_bool (\<not> b))"

definition gt :: "numbers \<Rightarrow> string_space \<Rightarrow> value \<Rightarrow> value \<Rightarrow> error + value" where
  "gt nm copy left right = andthen (bool_gt nm copy left right) (\<lambda>b. from_bool b)"

definition gte :: "numbers \<Rightarrow> string_space \<Rightarrow> value \<Rightarrow> value \<Rightarrow> error + value" where
  "gte nm copy left right = andthen (bool_gt nm copy right left) (\<lambda>b. from_bool (\<not> b))"

definition lte :: "numbers \<Rightarrow> string_space \<Rightarrow> value \<Rightarrow> value \<Rightarrow> error + value" where
  "lte nm copy left right = andthen (bool_gt nm copy left right) (\<lambda>b. from_bool (\<not> b))"

definition lt :: "numbers \<Rightarrow> string_space \<Rightarrow> value \<Rightarrow> value \<Rightarrow> error + value" where
  "lt nm copy left right = andthen (bool_gt nm copy right left) (\<lambda>b. from_bool b)"

subsection \<open>Conversion and string functions\<close>

text \<open>
  Modelled from the spec: \<open>error.throw_if\<close> (module \<open>error\<close>, absent) raises a runtime
  error when its argument holds; section 7 names the error of a bad argument Illegal
  Function Call.
\<close>

definition throw_if :: "bool \<Rightarrow> error + unit" where
  "throw_if b = (if b then Inl (RunError IFC) else Inr ())"

definition cvi :: "string_space \<Rightarrow> value \<Rightarrow> error + value" where
  "cvi copy x =
    andthen (pass_string x) (\<lambda>s.
      let cstr = copy s
      in andthen (throw_if (length cstr < 2)) (\<lambda>_. from_bytes (py_take 2 cstr)))"

definition cvs :: "string_space \<Rightarrow> value \<Rightarrow> error + value" where
  "cvs copy x =
    andthen (pass_string x) (\<lambda>s.
      let cstr = copy s
      in andthen (throw_if (length cstr < 4)) (\<lambda>_. from_bytes (py_take 4 cstr)))"

definition cvd :: "string_space \<Rightarrow> value \<Rightarrow> error + value" where
  "cvd copy x =
    andthen (pass_string x) (\<lambda>s.
      let cstr = copy s
      in andthen (throw_if (length cstr < 8)) (\<lambda>_. from_bytes (py_take 8 cstr)))"

text \<open>
  Python's \<open>big.find(small)\<close>: the lowest index at which \<open>small\<close> occurs in \<open>big\<close>, or
  -1. \<open>find_at\<close> carries the index of the position it looks at.
\<close>

fun find_at :: "'a list \<Rightarrow> 'a list \<Rightarrow> int \<Rightarrow> int" where
  "find_at [] sub i = (if sub = [] then i else - 1)"
| "find_at (c # cs) sub i =
     (if take (length sub) (c # cs) = sub then i else find_at cs sub (i + 1))"

definition py_find :: "'a list \<Rightarrow> 'a list \<Rightarrow> int" where
  "py_find big small = find_at big small 0"

text \<open>\<open>start\<close> is a Python integer, as the source remarks.\<close>

definition instr :: "string_space \<Rightarrow> value \<Rightarrow> value \<Rightarrow> int \<Rightarrow> error + value" where
  "instr copy big_in small_in start =
    andthen (pass_string big_in) (\<lambda>b.
    andthen (pass_string small_in) (\<lambda>s.
      let big = copy b; small = copy s
      in if big = [] \<or> start > int (length big) then Inr null_int
         else
           (let find = py_find (py_drop (start - 1) big) small
            in if find = - 1 then Inr null_int
               else from_int (start + find) False)))"

subsection \<open>A string space for concrete inputs\<close>

text \<open>
  Modelled from the spec: a string space for the statements about concrete strings
  further down. Section 3: a string descriptor is one length byte and a 2-byte
  little-endian address into the string space, and \<open>copy\<close> gives the bytes it denotes.
  The memory holds AB at address 0, ABC at address 2 and, from address 5, the bytes
  00 00 00 81 00 00 20 83 07.
\<close>

definition sample_memory :: "byte list" where
  "sample_memory =
    [0x41, 0x42, 0x41, 0x42, 0x43, 0x00, 0x00, 0x00, 0x81, 0x00, 0x00, 0x20, 0x83, 0x07]"

fun strings_sample :: string_space where
  "strings_sample (String [n, lo, hi]) =
     take (unat n) (drop (unat lo + 256 * unat hi) sample_memory)"
| "strings_sample v = []"

section \<open>Properties of the formatters\<close>

subsection \<open>The characters of the digit strings\<close>

lemma digit_char_in: "k < 10 \<Longrightarrow> digit_char k \<in> set ''0123456789''"
  unfolding digit_char_def by (rule nth_mem) simp

lemma str_nat_digits: "set (str_nat n) \<subseteq> set ''0123456789''"
proof (induction n rule: str_nat.induct)
  case (1 n)
  show ?case
  proof (cases "n < 10")
    case True
    then show ?thesis using digit_char_in[of n] by (subst str_nat.simps) simp
  next
    case False
    then show ?thesis using 1 digit_char_in[of "n mod 10"] by (subst str_nat.simps) simp
  qed
qed

lemma set_py_take: "set (py_take k s) \<subseteq> set s"
  by (auto simp: py_take_def dest: in_set_takeD)

lemma set_py_drop: "set (py_drop k s) \<subseteq> set s"
  by (auto simp: py_drop_def dest: in_set_dropD)

lemma set_py_rep: "set (py_rep c k) \<subseteq> {c}"
  by (auto simp: py_rep_def)

lemma set_rstrip0: "set (rstrip0 s) \<subseteq> set s"
  unfolding rstrip0_def using set_dropWhileD[of _ "\<lambda>c. c = CHR ''0''" "rev s"] by auto

lemma get_digits_digits: "set (get_digits num nd rt) \<subseteq> set ''0123456789''"
proof -
  let ?d = "str_nat (nat \<bar>num\<bar>)"
  let ?e = "py_rep CHR ''0'' (nd - int (length ?d)) @ py_take nd ?d"
  have "set ?e \<subseteq> set ''0123456789''"
    using set_py_rep[of "CHR ''0''" "nd - int (length ?d)"] set_py_take[of nd ?d] str_nat_digits[of "nat \<bar>num\<bar>"]
    by auto
  moreover have "set (rstrip0 ?e) \<subseteq> set ?e" by (rule set_rstrip0)
  ultimately show ?thesis unfolding get_digits_def Let_def by (auto simp del: set_simps)
qed

lemma decimal_notation_chars:
  "set (decimal_notation ds e ts fd) \<subseteq> set ds \<union> set ts \<union> {CHR ''0'', CHR ''.''}"
  using set_py_take[of "e + 1" ds] set_py_drop[of "e + 1" ds]
        set_py_rep[of "CHR ''0''" "e + 1 - int (length ds)"] set_py_rep[of "CHR ''0''" "- (e + 1)"]
  unfolding decimal_notation_def Let_def by auto

lemma scientific_notation_has_exp:
  "set es \<subseteq> set (scientific_notation ds e es dd fd)"
  unfolding scientific_notation_def Let_def by auto

lemma digits_not_exp:
  "set (exp_sign n) \<inter> (set ''0123456789'' \<union> set (float_sigil n) \<union> {CHR ''0'', CHR ''.'', CHR ''-'', CHR '' ''}) = {}"
  by (cases n) simp_all

lemma exp_sign_nonempty: "exp_sign n \<noteq> []"
  by (cases n) simp_all

lemma float_to_str_nonzero:
  assumes "\<not> is_zero n" and "to_decimal n (digits n) = (num, exp10)"
  shows "float_to_str to_decimal n leading_space type_sign =
           (if is_negative n then ''-'' else if leading_space then '' '' else '''')
           @ (if exp10 + digits n - 1 > digits n - 1
                 \<or> int (length (get_digits num (digits n) True)) - (exp10 + digits n - 1) > digits n + 1
              then scientific_notation (get_digits num (digits n) True) (exp10 + digits n - 1) (exp_sign n) 1 False
              else decimal_notation (get_digits num (digits n) True) (exp10 + digits n - 1)
                     (if type_sign then float_sigil n else '''') False)"
  using assms unfolding float_to_str_def by (simp add: Let_def)

lemma decimal_output_chars:
  "set ((if neg then ''-'' else if leading_space then '' '' else '''')
        @ decimal_notation (get_digits num nd True) e (if type_sign then float_sigil n else '''') False)
     \<subseteq> set ''0123456789'' \<union> set (float_sigil n) \<union> {CHR ''0'', CHR ''.'', CHR ''-'', CHR '' ''}"
proof -
  let ?ds = "get_digits num nd True"
  let ?ts = "if type_sign then float_sigil n else ''''"
  let ?sg = "if neg then ''-'' else if leading_space then '' '' else ''''"
  have a: "set (decimal_notation ?ds e ?ts False) \<subseteq> set ?ds \<union> set ?ts \<union> {CHR ''0'', CHR ''.''}"
    by (rule decimal_notation_chars)
  have t: "set ?ts \<subseteq> set (float_sigil n)"
    by (cases type_sign) simp_all
  have g: "set ?ds \<subseteq> set ''0123456789''"
    by (rule get_digits_digits)
  have b: "set ?sg \<subseteq> {CHR ''-'', CHR '' ''}"
    by auto
  have "set (?sg @ decimal_notation ?ds e ?ts False) = set ?sg \<union> set (decimal_notation ?ds e ?ts False)"
    by (rule set_append)
  with a t g b show ?thesis by blast
qed

text \<open>
  C1. For a nonzero Single or Double with decimal form (num, exp10) at the native digit
  count, \<open>float_to_str\<close> puts the sign (or the leading space) before the scientific
  notation of the stripped digits when exp10' > digits - 1 or len(digitstr) - exp10' >
  digits + 1, where exp10' = exp10 + digits - 1, and before their decimal notation
  otherwise. The output shows which of the two was chosen: it holds the exponent letter
  of the class (E or D) exactly when that condition is true.
\<close>

theorem float_to_str_notation:
  assumes nz: "\<not> is_zero n" and dec: "to_decimal n (digits n) = (num, exp10)"
  shows "(let digitstr = get_digits num (digits n) True;
              exp10' = exp10 + digits n - 1;
              scientific = (exp10' > digits n - 1 \<or> int (length digitstr) - exp10' > digits n + 1);
              sign = (if is_negative n then ''-'' else if leading_space then '' '' else '''')
          in float_to_str to_decimal n leading_space type_sign =
               sign @ (if scientific
                       then scientific_notation digitstr exp10' (exp_sign n) 1 False
                       else decimal_notation digitstr exp10'
                              (if type_sign then float_sigil n else '''') False)
             \<and> (set (exp_sign n) \<subseteq> set (float_to_str to_decimal n leading_space type_sign)
                  \<longleftrightarrow> scientific))"
proof -
  let ?ds = "get_digits num (digits n) True"
  let ?e = "exp10 + digits n - 1"
  let ?sci = "?e > digits n - 1 \<or> int (length ?ds) - ?e > digits n + 1"
  let ?sg = "if is_negative n then ''-'' else if leading_space then '' '' else ''''"
  let ?ts = "if type_sign then float_sigil n else ''''"
  let ?out = "float_to_str to_decimal n leading_space type_sign"
  have eq: "?out = ?sg @ (if ?sci then scientific_notation ?ds ?e (exp_sign n) 1 False
                          else decimal_notation ?ds ?e ?ts False)"
    by (rule float_to_str_nonzero[where to_decimal=to_decimal and n=n, OF nz dec])
  have iff: "set (exp_sign n) \<subseteq> set ?out \<longleftrightarrow> ?sci"
  proof (cases ?sci)
    case True
    have "set (exp_sign n) \<subseteq> set (scientific_notation ?ds ?e (exp_sign n) 1 False)"
      by (rule scientific_notation_has_exp)
    then have "set (exp_sign n) \<subseteq> set (?sg @ scientific_notation ?ds ?e (exp_sign n) 1 False)"
      unfolding set_append by blast
    with True eq show ?thesis by simp
  next
    case False
    have chars: "set (?sg @ decimal_notation ?ds ?e ?ts False)
          \<subseteq> set ''0123456789'' \<union> set (float_sigil n) \<union> {CHR ''0'', CHR ''.'', CHR ''-'', CHR '' ''}"
      by (rule decimal_output_chars)
    obtain c where c: "c \<in> set (exp_sign n)"
      using exp_sign_nonempty[of n] by (cases "exp_sign n") auto
    have "\<not> set (exp_sign n) \<subseteq> set (?sg @ decimal_notation ?ds ?e ?ts False)"
      using c chars digits_not_exp[of n] by blast
    with False eq show ?thesis by simp
  qed
  from eq iff show ?thesis unfolding Let_def by blast
qed

lemma get_digits_1234500: "get_digits 1234500 7 True = ''12345''"
  by (simp add: get_digits_def str_nat.simps digit_char_def py_rep_def py_take_def rstrip0_def)

lemma get_digits_8: "get_digits 8 2 False = ''08''"
  by (simp add: get_digits_def str_nat.simps digit_char_def py_rep_def py_take_def)

lemma scientific_12345: "scientific_notation ''12345'' 8 ''E'' 1 False = ''1.2345E+08''"
  by (simp add: scientific_notation_def py_take_def py_drop_def get_digits_8)

theorem float_to_str_notation_witness:
  "float_to_str (\<lambda>f d. (1234500, 2)) (Single 0x9A6B79A3) True False = '' 1.2345E+08''
   \<and> set ''E'' \<subseteq> set (float_to_str (\<lambda>f d. (1234500, 2)) (Single 0x9A6B79A3) True False)"
proof -
  have nz: "\<not> is_zero (Single 0x9A6B79A3)" by simp
  have dec: "(\<lambda>f d. (1234500, 2)) (Single 0x9A6B79A3) (digits (Single 0x9A6B79A3)) = (1234500::int, 2::int)"
    by simp
  show ?thesis
    using float_to_str_notation[OF nz dec, of True False]
    by (simp add: Let_def get_digits_1234500 scientific_12345)
qed

subsection \<open>The sigil in decimal notation\<close>

lemma get_digits_1234568: "get_digits 1234568 7 True = ''1234568''"
  by (simp add: get_digits_def str_nat.simps digit_char_def py_rep_def py_take_def rstrip0_def)

lemma decimal_1234568_plain: "decimal_notation ''1234568'' 4 '''' False = ''12345.68''"
  by (simp add: decimal_notation_def py_rep_def py_take_def py_drop_def)

lemma decimal_1234568_single: "decimal_notation ''1234568'' 4 ''!'' False = ''12345.68''"
  by (simp add: decimal_notation_def py_rep_def py_take_def py_drop_def)

lemma decimal_12345_plain: "decimal_notation ''12345'' 4 '''' False = ''12345''"
  by (simp add: decimal_notation_def py_rep_def py_take_def py_drop_def)

lemma decimal_12345_single: "decimal_notation ''12345'' 4 ''!'' False = ''12345!''"
  by (simp add: decimal_notation_def py_rep_def py_take_def py_drop_def)

lemma listing_12345_678:
  "float_to_str (\<lambda>f d. (1234568, - 2)) (Single 0x8E40E6B6) False True = ''12345.68''"
  by (simp add: float_to_str_def get_digits_1234568 decimal_1234568_single)

lemma listing_12345:
  "float_to_str (\<lambda>f d. (1234500, - 2)) (Single 0x8E40E400) False True = ''12345!''"
  by (simp add: float_to_str_def get_digits_1234500 decimal_12345_single)

text \<open>
  C2, as the claim states it, does not hold. The Single 12345.678 has the bytes B6 E6 40
  8E and the 7-digit decimal form 1234568 * 10^-2; in listing mode (no leading space,
  type sign) \<open>float_to_str\<close> gives 12345.68, without the sigil.
\<close>

theorem listing_12345_678_counterexample:
  "float_to_str (\<lambda>f d. (1234568, - 2)) (Single 0x8E40E6B6) False True \<noteq> ''12345.68!''"
  by (simp add: listing_12345_678)

text \<open>
  C2, amended. In decimal notation the sigil \<open>#\<close> of a Double is always appended after
  the number. The sigil \<open>!\<close> of a Single is appended exactly when there is no forced
  dot and the number has no digits after the radix point, that is when the radix
  position exp10 + 1 is at least the number of digits. So in listing mode the Single
  12345.678 is formatted as 12345.68 and the Single 12345 as 12345!.
\<close>

theorem decimal_notation_sigil:
  "decimal_notation digitstr exp10 ''#'' force_dot =
     decimal_notation digitstr exp10 '''' force_dot @ ''#''
   \<and> decimal_notation digitstr exp10 ''!'' force_dot =
       decimal_notation digitstr exp10 '''' force_dot
         @ (if exp10 + 1 \<ge> int (length digitstr) \<and> \<not> force_dot then ''!'' else '''')
   \<and> float_to_str (\<lambda>f d. (1234568, - 2)) (Single 0x8E40E6B6) False True = ''12345.68''
   \<and> float_to_str (\<lambda>f d. (1234500, - 2)) (Single 0x8E40E400) False True = ''12345!''"
proof -
  have a: "decimal_notation digitstr exp10 ''#'' force_dot =
             decimal_notation digitstr exp10 '''' force_dot @ ''#''"
    unfolding decimal_notation_def Let_def by simp
  have b: "decimal_notation digitstr exp10 ''!'' force_dot =
             decimal_notation digitstr exp10 '''' force_dot
               @ (if exp10 + 1 \<ge> int (length digitstr) \<and> \<not> force_dot then ''!'' else '''')"
    unfolding decimal_notation_def Let_def by simp
  from a b listing_12345_678 listing_12345 show ?thesis by blast
qed

theorem decimal_notation_sigil_witness:
  "decimal_notation ''12345'' 4 ''!'' False = ''12345!''
   \<and> decimal_notation ''1234568'' 4 ''!'' False = ''12345.68''
   \<and> decimal_notation ''1234568'' 4 ''#'' False = ''12345.68#''"
  using decimal_notation_sigil[of "''12345''" 4 False]
        decimal_notation_sigil[of "''1234568''" 4 False]
  by (simp add: decimal_12345_plain decimal_1234568_plain)

subsection \<open>PRINT USING\<close>

text \<open>
  C6. Whatever the value and the token string, \<open>format_number\<close> raises Illegal Function
  Call when digits_before + decimals > 24, and so returns no text.
\<close>

theorem format_number_too_many_digits:
  assumes "digits_before + decimals > 24"
  shows "format_number to_decimal val tokens digits_before decimals = Inl (RunError IFC)"
  using assms unfolding format_number_def by simp

theorem format_number_too_many_digits_witness:
  "format_number (\<lambda>f d. (1234568, - 2)) (Single 0x8E40E6B6) ''##.##'' 20 5 = Inl (RunError IFC)"
proof -
  have "(20::int) + 5 > 24" by simp
  from format_number_too_many_digits[OF this] show ?thesis .
qed

lemma format_float_scientific_zero:
  assumes "is_zero expr"
  shows "format_float_scientific to_decimal expr digits_before decimals False =
           (if exp_sign expr = ''E'' then ''E+00'' else ''0D+00'')"
  using assms unfolding format_float_scientific_def by (simp add: Let_def)

lemma format_number_single_zero:
  assumes "digits_before + decimals \<le> 24"
  shows "format_number to_decimal (Single 0) ''#^^^^'' digits_before decimals = Inr '' E+00''"
proof -
  have z: "is_zero (Single 0)" by simp
  have s: "format_float_scientific to_decimal (Single 0) db decimals False = ''E+00''" for db
    using format_float_scientific_zero[OF z, of to_decimal db decimals] by simp
  show ?thesis
    using assms unfolding format_number_def by (simp add: Let_def s)
qed

text \<open>
  C7. For a zero value and no forced decimal point, \<open>_format_float_scientific\<close> gives
  exactly E+00 for a Single and 0D+00 for a Double, whatever the digit counts; and
  PRINT USING with the token #^^^^ (any digit counts that pass the check of C6) formats
  the Single 0 as a space followed by E+00.
\<close>

theorem scientific_zero_quirk:
  "(is_zero (Single s) \<longrightarrow>
      format_float_scientific to_decimal (Single s) digits_before decimals False = ''E+00'')
   \<and> (is_zero (Double d) \<longrightarrow>
      format_float_scientific to_decimal (Double d) digits_before decimals False = ''0D+00'')
   \<and> (digits_before + decimals \<le> 24 \<longrightarrow>
      format_number to_decimal (Single 0) ''#^^^^'' digits_before decimals = Inr '' E+00'')"
  using format_float_scientific_zero[of "Single s" to_decimal digits_before decimals]
        format_float_scientific_zero[of "Double d" to_decimal digits_before decimals]
        format_number_single_zero[of digits_before decimals to_decimal]
  by simp

theorem scientific_zero_quirk_witness:
  "format_float_scientific (\<lambda>f d. (0, 0)) (Single 0) 1 0 False = ''E+00''
   \<and> format_float_scientific (\<lambda>f d. (0, 0)) (Double 0) 1 0 False = ''0D+00''
   \<and> format_number (\<lambda>f d. (0, 0)) (Single 0) ''#^^^^'' 1 0 = Inr '' E+00''"
  using scientific_zero_quirk[of 0 "\<lambda>f d. (0, 0)" 1 0 0]
  by simp

section \<open>Properties of the operators\<close>

subsection \<open>Bit-level facts\<close>

lemma uint_not_16: "uint (NOT c) = 65535 - uint c" for c :: "16 word"
proof -
  have "uint (NOT c) = take_bit 16 (NOT (uint c))"
    by (simp add: unsigned_not_eq)
  also have "\<dots> = mask 16 - take_bit 16 (uint c)"
    by (rule take_bit_not_eq_mask_diff)
  also have "take_bit 16 (uint c) = uint c"
    by (simp add: take_bit_int_eq_self_iff uint_lt2p [where x = c, simplified])
  finally show ?thesis by (simp add: mask_eq_exp_minus_1)
qed

lemma xor_ffff_16: "(0xFFFF::int) XOR uint c = 65535 - uint c" for c :: "16 word"
proof -
  have "(0xFFFF::int) = uint (- 1 :: 16 word)"
    by (simp add: unsigned_minus_1_eq_mask mask_eq_exp_minus_1)
  then have "(0xFFFF::int) XOR uint c = uint ((- 1 :: 16 word) XOR c)"
    by (simp only: uint_xor)
  also have "\<dots> = uint (NOT c)" by simp
  finally show ?thesis by (simp add: uint_not_16)
qed

lemma word_of_int_compl_16: "(word_of_int (65535 - uint c) :: 16 word) = NOT c" for c :: "16 word"
proof -
  have "(word_of_int (65535 - uint c) :: 16 word) = word_of_int (uint (NOT c))"
    by (simp only: uint_not_16)
  then show ?thesis by simp
qed

lemma ineg_ineg: "ineg (ineg f) = f"
proof (cases f)
  case (Single w)
  have "drop_bit 24 (flip_bit 23 w) = drop_bit 24 w"
    by (rule bit_eqI) (auto simp: bit_simps dest: bit_imp_le_length)
  moreover have "flip_bit 23 (flip_bit 23 w) = w"
    by (rule bit_eqI) (auto simp: bit_simps)
  ultimately show ?thesis using Single by simp
next
  case (Double w)
  have "drop_bit 56 (flip_bit 55 w) = drop_bit 56 w"
    by (rule bit_eqI) (auto simp: bit_simps dest: bit_imp_le_length)
  moreover have "flip_bit 55 (flip_bit 55 w) = w"
    by (rule bit_eqI) (auto simp: bit_simps)
  ultimately show ?thesis using Double by simp
qed

lemma bit_length_5: "bit_length 5 = 3"
  by (simp add: bit_length.simps)

lemma single_from_integer_5: "single_from_integer 5 = 0x83200000"
  by (simp add: single_from_integer_def bit_length_5)

lemma bit_length_32768: "bit_length 32768 = 16"
  by (simp add: bit_length.simps)

lemma single_from_integer_min: "single_from_integer (- 32768) = 0x90800000"
  by (simp add: single_from_integer_def bit_length_32768)

lemma is_negative_min: "is_negative (Single 0x90800000)"
  by simp

subsection \<open>Negation\<close>

lemma negate_float: "negate nm (Float f) = Inr (Float (ineg f))"
  by (cases f) (simp_all add: negate_def)

lemma negate_integer:
  "negate nm (Integer w) = Inr (Float (ineg (Single (single_from_integer w))))"
  by (simp add: negate_def)

lemma negate_twice_float: "andthen (negate nm (Float f)) (negate nm) = Inr (Float f)"
  by (simp only: andthen.simps negate_float ineg_ineg)

lemma negate_twice_integer:
  "andthen (negate nm (Integer w)) (negate nm) = Inr (Float (Single (single_from_integer w)))"
  by (simp only: negate_integer andthen.simps negate_float ineg_ineg)

text \<open>
  C3, as the claim states it, does not hold: Integer -32768 is not the only Integer
  that \<open>negate\<close> promotes. Negating Integer 5 twice gives a Single, not Integer 5.
\<close>

theorem negate_twice_integer_counterexample:
  "andthen (negate numbers_sample (Integer 5)) (negate numbers_sample) \<noteq> Inr (Integer 5)"
  by (simp add: negate_twice_integer)

text \<open>
  C3, amended. For every Single or Double x, negate(negate(x)) is x. For every Integer
  x, \<open>negate\<close> first promotes x to Single, so negate(negate(x)) is the Single that x is
  converted to; for Integer 5 that is Single 5 (bytes 00 00 20 83), and for Integer
  -32768 it is Single -32768 (bytes 00 00 80 90, sign bit set).
\<close>

theorem negate_twice:
  "andthen (negate nm (Float f)) (negate nm) = Inr (Float f)
   \<and> andthen (negate nm (Integer w)) (negate nm) = Inr (Float (Single (single_from_integer w)))
   \<and> to_single nm (Integer w) = Inr (Single (single_from_integer w))
   \<and> single_from_integer 5 = 0x83200000
   \<and> single_from_integer (- 32768) = 0x90800000
   \<and> is_negative (Single 0x90800000)"
  using negate_twice_float[of nm f] negate_twice_integer[of nm w]
        single_from_integer_5 single_from_integer_min
  by simp

theorem negate_twice_witness:
  "andthen (negate numbers_sample (Float (Single 0x83200000))) (negate numbers_sample)
     = Inr (Float (Single 0x83200000))
   \<and> andthen (negate numbers_sample (Integer (- 32768))) (negate numbers_sample)
     = Inr (Float (Single 0x90800000))"
  using negate_twice[of numbers_sample "Single 0x83200000" "- 32768"]
  by simp

subsection \<open>EQV\<close>

lemma bitwise_eqv_value:
  assumes "num_to_integer nm x False = Inr a" and "num_to_integer nm y False = Inr b"
  shows "bitwise_eqv nm x y = Inr (Integer (NOT (a XOR b)))"
proof -
  have r: "0 \<le> 65535 - uint (a XOR b) \<and> 65535 - uint (a XOR b) \<le> 65535"
    using uint_lt2p[of "a XOR b"] by simp
  have "bitwise_eqv nm x y = from_int (65535 - uint (a XOR b)) True"
    using assms by (simp add: bitwise_eqv_def to_int_def uint_xor)
  also have "\<dots> = Inr (Integer (word_of_int (65535 - uint (a XOR b))))"
    using r by (simp add: from_int_def)
  finally show ?thesis by (simp only: word_of_int_compl_16)
qed

text \<open>
  C4. When both operands convert to Integer, to a and b, \<open>bitwise_eqv\<close> returns the
  Integer whose unsigned value is 0xFFFF XOR (u(a) XOR u(b)), where u is the unsigned
  16-bit view: the subtraction from 0xffff in the source is that exclusive or. The
  returned Integer is the bitwise complement of a XOR b.
\<close>

theorem bitwise_eqv_xor:
  assumes "num_to_integer nm x False = Inr a" and "num_to_integer nm y False = Inr b"
  shows "bitwise_eqv nm x y = Inr (Integer (NOT (a XOR b)))
         \<and> to_int (NOT (a XOR b)) True = 0xFFFF XOR (to_int a True XOR to_int b True)"
proof -
  have "to_int (NOT (a XOR b)) True = 65535 - uint (a XOR b)"
    by (simp add: to_int_def uint_not_16)
  also have "\<dots> = 0xFFFF XOR uint (a XOR b)"
    by (simp only: xor_ffff_16)
  also have "\<dots> = 0xFFFF XOR (to_int a True XOR to_int b True)"
    by (simp add: to_int_def uint_xor)
  finally show ?thesis using bitwise_eqv_value[OF assms] by simp
qed

theorem bitwise_eqv_xor_witness:
  "bitwise_eqv numbers_sample (Integer 5) (Integer 3) = Inr (Integer 0xFFF9)
   \<and> to_int 0xFFF9 True = 0xFFFF XOR (to_int 5 True XOR to_int 3 True)"
proof -
  have a: "num_to_integer numbers_sample (Integer 5) False = Inr 5" by simp
  have b: "num_to_integer numbers_sample (Integer 3) False = Inr 3" by simp
  have c: "NOT (5 XOR 3 :: 16 word) = 0xFFF9" by simp
  show ?thesis using bitwise_eqv_xor[OF a b] unfolding c .
qed

section \<open>Properties of the string operations\<close>

subsection \<open>Comparison of strings\<close>

lemma gt_loop_lexord:
  assumes "shortest = min (length left) (length right)" and "i \<le> shortest"
  shows "(case gt_loop left right shortest i of
            Some b \<Rightarrow> b
          | None \<Rightarrow> length left > length right)
         \<longleftrightarrow> (drop i right, drop i left) \<in> lexord {(u, v). u < v}"
  using assms
proof (induction left right shortest i rule: gt_loop.induct)
  case (1 left right shortest i)
  show ?case
  proof (cases "i < shortest")
    case True
    then have il: "i < length left" and ir: "i < length right"
      using "1.prems" by simp_all
    have dl: "drop i left = left ! i # drop (Suc i) left"
      using il by (simp add: Cons_nth_drop_Suc)
    have dr: "drop i right = right ! i # drop (Suc i) right"
      using ir by (simp add: Cons_nth_drop_Suc)
    show ?thesis
    proof (cases "left ! i > right ! i")
      case gt: True
      then show ?thesis using True dl dr by (subst gt_loop.simps) simp
    next
      case ngt: False
      show ?thesis
      proof (cases "left ! i < right ! i")
        case lt: True
        then show ?thesis using True ngt dl dr by (subst gt_loop.simps) auto
      next
        case nlt: False
        then have eq: "left ! i = right ! i" using ngt by simp
        have ih: "(case gt_loop left right shortest (Suc i) of
                     Some b \<Rightarrow> b
                   | None \<Rightarrow> length left > length right)
                  \<longleftrightarrow> (drop (Suc i) right, drop (Suc i) left) \<in> lexord {(u, v). u < v}"
          using "1.IH"[OF True ngt nlt "1.prems"(1)] True by simp
        show ?thesis
          using True ngt nlt eq ih dl dr by (subst gt_loop.simps) simp
      qed
    qed
  next
    case False
    then have i: "i = min (length left) (length right)"
      using "1.prems" by (auto simp: min_def)
    show ?thesis
    proof (cases "length left > length right")
      case True
      then have "drop i right = []" and "drop i left \<noteq> []"
        using i by simp_all
      then show ?thesis
        using False True by (subst gt_loop.simps) (cases "drop i left"; simp)
    next
      case nl: False
      then have "drop i left = []"
        using i by simp
      then show ?thesis
        using False nl by (subst gt_loop.simps) simp
    qed
  qed
qed

lemma string_gt_lexord: "string_gt left right \<longleftrightarrow> (right, left) \<in> lexord {(u, v). u < v}"
  using gt_loop_lexord[of "min (length left) (length right)" left right 0]
  by (simp add: string_gt_def)

lemma bool_gt_strings:
  "bool_gt nm copy (String a) (String b) = Inr (string_gt (copy (String a)) (copy (String b)))"
  by (simp add: bool_gt_def pass_string_def)

lemma bool_eq_strings:
  "bool_eq nm copy (String a) (String b) = Inr (copy (String a) = copy (String b))"
  by (simp add: bool_eq_def pass_string_def)

lemma from_bool_values: "from_bool True = Inr (Integer (- 1))" "from_bool False = Inr (Integer 0)"
  by (simp_all add: from_bool_def from_bytes_def SIZE_TO_TYPE_def SIZE_TO_CLASS_def le_word_def)

lemma strings_sample_AB: "strings_sample (String [2, 0, 0]) = [0x41, 0x42]"
  by (simp add: sample_memory_def)

lemma strings_sample_ABC: "strings_sample (String [3, 2, 0]) = [0x41, 0x42, 0x43]"
  by (simp add: sample_memory_def)

text \<open>
  C5. For two string values with contents l (left) and r (right), each comparison
  operator returns the truth value, as an Integer, of the lexicographic order over
  bytes, in which a string is less than every longer string it is a prefix of:
  \<open>gt\<close> is r < l, \<open>lt\<close> is l < r, \<open>gte\<close> is not l < r, \<open>lte\<close> is not r < l, and
  \<open>equals\<close>, \<open>not_equals\<close> are equality of the contents. True is Integer -1 and false
  is Integer 0.
\<close>

theorem string_comparisons:
  "(let l = copy (String a); r = copy (String b);
        less = (\<lambda>x y. (x, y) \<in> lexord {(u, v). u < v})
    in gt nm copy (String a) (String b) = from_bool (less r l)
       \<and> lt nm copy (String a) (String b) = from_bool (less l r)
       \<and> gte nm copy (String a) (String b) = from_bool (\<not> less l r)
       \<and> lte nm copy (String a) (String b) = from_bool (\<not> less r l)
       \<and> equals nm copy (String a) (String b) = from_bool (l = r)
       \<and> not_equals nm copy (String a) (String b) = from_bool (l \<noteq> r))
   \<and> (xs, xs @ c # ys) \<in> lexord {(u, v). u < (v :: byte)}
   \<and> from_bool True = Inr (Integer (- 1)) \<and> to_int (- 1) False = - 1
   \<and> from_bool False = Inr (Integer 0) \<and> to_int 0 False = 0"
proof -
  have p: "(xs, xs @ c # ys) \<in> lexord {(u, v). u < (v :: byte)}"
    by (rule lexord_append_rightI) simp
  have t: "to_int (- 1) False = - 1" "to_int 0 False = 0"
    by (simp_all add: to_int_def)
  show ?thesis
    unfolding Let_def gt_def lt_def gte_def lte_def equals_def not_equals_def
    using p t from_bool_values
    by (simp add: bool_gt_strings bool_eq_strings string_gt_lexord)
qed

theorem string_comparisons_witness:
  "lt numbers_sample strings_sample (String [2, 0, 0]) (String [3, 2, 0]) = Inr (Integer (- 1))
   \<and> gt numbers_sample strings_sample (String [2, 0, 0]) (String [3, 2, 0]) = Inr (Integer 0)"
  using string_comparisons[of strings_sample "[2, 0, 0]" "[3, 2, 0]" numbers_sample]
  by (simp add: Let_def sample_memory_def from_bool_values)

subsection \<open>CVI, CVS and CVD\<close>

lemma cvi_string:
  "cvi copy (String d) =
     (if length (copy (String d)) < 2 then Inl (RunError IFC)
      else Inr (Integer (le_word (take 2 (copy (String d))))))"
  by (simp add: cvi_def pass_string_def throw_if_def Let_def from_bytes_def py_take_def
      SIZE_TO_TYPE_def SIZE_TO_CLASS_def min_def)

lemma cvs_string:
  "cvs copy (String d) =
     (if length (copy (String d)) < 4 then Inl (RunError IFC)
      else Inr (Float (Single (le_word (take 4 (copy (String d)))))))"
  by (simp add: cvs_def pass_string_def throw_if_def Let_def from_bytes_def py_take_def
      SIZE_TO_TYPE_def SIZE_TO_CLASS_def min_def)

lemma cvd_string:
  "cvd copy (String d) =
     (if length (copy (String d)) < 8 then Inl (RunError IFC)
      else Inr (Float (Double (le_word (take 8 (copy (String d)))))))"
  by (simp add: cvd_def pass_string_def throw_if_def Let_def from_bytes_def py_take_def
      SIZE_TO_TYPE_def SIZE_TO_CLASS_def min_def)

text \<open>
  C8. For a string value with contents s, \<open>cvi\<close> raises a runtime error exactly when s
  has fewer than 2 bytes, \<open>cvs\<close> exactly when it has fewer than 4 and \<open>cvd\<close> exactly
  when it has fewer than 8; otherwise they return the Integer, Single or Double whose
  buffer is the first 2, 4 or 8 bytes of s, read little-endian.
\<close>

theorem cv_short_strings:
  "(let s = copy (String d)
    in cvi copy (String d) =
         (if length s < 2 then Inl (RunError IFC) else Inr (Integer (le_word (take 2 s))))
       \<and> cvs copy (String d) =
         (if length s < 4 then Inl (RunError IFC) else Inr (Float (Single (le_word (take 4 s)))))
       \<and> cvd copy (String d) =
         (if length s < 8 then Inl (RunError IFC) else Inr (Float (Double (le_word (take 8 s))))))"
  unfolding Let_def using cvi_string[of copy d] cvs_string[of copy d] cvd_string[of copy d]
  by simp

lemma le_nat_AB: "le_nat [0x41, 0x42] = 16961"
  by simp

lemma le_nat_one: "le_nat [0, 0, 0, 0x81] = 2164260864"
  by simp

theorem cv_short_strings_witness:
  "cvi strings_sample (String [2, 0, 0]) = Inr (Integer 0x4241)
   \<and> cvs strings_sample (String [2, 0, 0]) = Inl (RunError IFC)
   \<and> cvs strings_sample (String [4, 5, 0]) = Inr (Float (Single 0x81000000))
   \<and> cvd strings_sample (String [4, 5, 0]) = Inl (RunError IFC)"
  using cv_short_strings[of strings_sample "[2, 0, 0]"]
        cv_short_strings[of strings_sample "[4, 5, 0]"]
  by (simp add: Let_def sample_memory_def le_word_def)

text \<open>
  C10. Two string values whose contents have at least 2 bytes and the same first 2
  bytes have the same \<open>cvi\<close>; likewise for \<open>cvs\<close> with 4 bytes and \<open>cvd\<close> with 8. The
  bytes after the prefix are ignored.
\<close>

theorem cv_prefix_only:
  "(length (copy (String d)) \<ge> 2 \<and> length (copy (String e)) \<ge> 2
      \<and> take 2 (copy (String d)) = take 2 (copy (String e))
      \<longrightarrow> cvi copy (String d) = cvi copy (String e))
   \<and> (length (copy (String d)) \<ge> 4 \<and> length (copy (String e)) \<ge> 4
      \<and> take 4 (copy (String d)) = take 4 (copy (String e))
      \<longrightarrow> cvs copy (String d) = cvs copy (String e))
   \<and> (length (copy (String d)) \<ge> 8 \<and> length (copy (String e)) \<ge> 8
      \<and> take 8 (copy (String d)) = take 8 (copy (String e))
      \<longrightarrow> cvd copy (String d) = cvd copy (String e))"
  by (simp add: cvi_string cvs_string cvd_string)

theorem cv_prefix_only_witness:
  "cvi strings_sample (String [2, 0, 0]) = cvi strings_sample (String [3, 2, 0])
   \<and> cvs strings_sample (String [4, 5, 0]) = cvs strings_sample (String [8, 5, 0])
   \<and> cvd strings_sample (String [8, 5, 0]) = cvd strings_sample (String [9, 5, 0])"
  using cv_prefix_only[of strings_sample "[2, 0, 0]" "[3, 2, 0]"]
        cv_prefix_only[of strings_sample "[4, 5, 0]" "[8, 5, 0]"]
        cv_prefix_only[of strings_sample "[8, 5, 0]" "[9, 5, 0]"]
  by (simp add: sample_memory_def)

subsection \<open>INSTR\<close>

lemma find_at_empty: "find_at xs [] i = i"
  by (cases xs) simp_all

text \<open>
  C9. For a non-empty string big (of at most 255 bytes, as every BASIC string), the
  empty string small and a start position with 1 <= start <= len(big), \<open>instr\<close> returns
  Integer(start): the empty substring is found at the start position.
\<close>

theorem instr_empty_substring:
  assumes "copy (String s) = []"
    and "copy (String b) \<noteq> []"
    and "length (copy (String b)) \<le> 255"
    and "1 \<le> start" and "start \<le> int (length (copy (String b)))"
  shows "instr copy (String b) (String s) start = Inr (Integer (word_of_int start))
         \<and> to_int (word_of_int start) False = start"
proof -
  have r: "- 32768 \<le> start \<and> start \<le> 32767"
    using assms by simp
  have "sint (word_of_int start :: 16 word) = start"
    using r by (simp add: sint_sbintrunc' signed_take_bit_int_eq_self_iff)
  then have t: "to_int (word_of_int start) False = start"
    by (simp add: to_int_def)
  have "instr copy (String b) (String s) start = from_int start False"
    using assms by (simp add: instr_def pass_string_def Let_def py_find_def find_at_empty)
  also have "\<dots> = Inr (Integer (word_of_int start))"
    using r by (simp add: from_int_def)
  finally show ?thesis using t by simp
qed

theorem instr_empty_substring_witness:
  "instr strings_sample (String [3, 2, 0]) (String [0, 0, 0]) 2 = Inr (Integer 2)
   \<and> to_int 2 False = 2"
proof -
  have a: "strings_sample (String [0, 0, 0]) = []" by simp
  have b: "strings_sample (String [3, 2, 0]) \<noteq> []" by (simp add: sample_memory_def)
  have c: "length (strings_sample (String [3, 2, 0])) \<le> 255" by (simp add: sample_memory_def)
  have d: "(1::int) \<le> 2" by simp
  have e: "(2::int) \<le> int (length (strings_sample (String [3, 2, 0])))"
    by (simp add: sample_memory_def)
  show ?thesis using instr_empty_substring[OF a b c d e] by simp
qed

end
